theory Spec2Isabelle
  imports Main "HOL-Library.Word" "HOL-Library.Multiset"
begin

section \<open>JavaScript strings\<close>

text \<open>
  A JavaScript string is a sequence of 16-bit code units.  String literals of the
  source are written with \<open>str\<close>, which maps each Latin-1 character to its code unit.
\<close>

type_synonym jsstring = "16 word list"

definition str :: "string \<Rightarrow> jsstring" where
  "str s = map of_char s"

text \<open>
  \<open>String.prototype.trim\<close> removes the WhiteSpace and LineTerminator code points of
  ECMAScript from both ends: TAB, LF, VT, FF, CR, SPACE, NBSP, U+1680, U+2000 to U+200A,
  U+2028, U+2029, U+202F, U+205F, U+3000 and U+FEFF.
\<close>

definition isWhiteSpace :: "16 word \<Rightarrow> bool" where
  "isWhiteSpace c \<longleftrightarrow>
     c = 0x09 \<or> c = 0x0A \<or> c = 0x0B \<or> c = 0x0C \<or> c = 0x0D \<or> c = 0x20 \<or> c = 0xA0 \<or>
     c = 0x1680 \<or> (0x2000 \<le> c \<and> c \<le> 0x200A) \<or> c = 0x2028 \<or> c = 0x2029 \<or>
     c = 0x202F \<or> c = 0x205F \<or> c = 0x3000 \<or> c = 0xFEFF"

definition trim :: "jsstring \<Rightarrow> jsstring" where
  "trim s = rev (dropWhile isWhiteSpace (rev (dropWhile isWhiteSpace s)))"

text \<open>The decimal digits of a non-negative integer, as a template literal prints it.\<close>

fun toString :: "nat \<Rightarrow> jsstring" where
  "toString n =
     (if n < 10 then [0x30 + of_nat n]
      else toString (n div 10) @ [0x30 + of_nat (n mod 10)])"

section \<open>Data model\<close>

text \<open>
  The types of \<open>types/todo.types\<close>: the union \<open>TodoStatus\<close> of four string literals, the
  interfaces \<open>Todo\<close> (\<open>id\<close>, \<open>title\<close>, \<open>description\<close>, \<open>status\<close> and the optional \<open>createdAt\<close>
  and \<open>updatedAt\<close>), \<open>CreateTodoDto\<close> (\<open>title\<close>, \<open>description\<close>) and \<open>UpdateTodoDto\<close> (\<open>title\<close>,
  \<open>description\<close>, \<open>status\<close>), and the union \<open>FilterType\<close> of \<open>all\<close>, \<open>active\<close>, \<open>completed\<close> and
  \<open>cancelled\<close>.  The records extend one another the way the structural types include one
  another.  The field \<open>id\<close> is a \<open>number\<close> that holds the integer the backend assigned and
  is only compared for equality; it is an \<open>int\<close> here, under the name \<open>id_todo\<close>.
\<close>

datatype TodoStatus = PENDING | IN_PROGRESS | COMPLETED | CANCELLED

record CreateTodoDto =
  title :: jsstring
  description :: jsstring

record UpdateTodoDto = CreateTodoDto +
  status :: TodoStatus

record Todo = UpdateTodoDto +
  id_todo :: int
  createdAt :: "jsstring option"
  updatedAt :: "jsstring option"

datatype FilterType = filter_all | filter_active | filter_completed | filter_cancelled

text \<open>
  A value thrown by a rejected promise: an \<open>Error\<close> object with its message, or anything
  else (\<open>error instanceof Error\<close> is false).
\<close>

datatype exn = Error jsstring | NonError

section \<open>The API client\<close>

text \<open>
  Each request function of \<open>todosApi\<close> performs one HTTP exchange and either resolves with
  the parsed body or rejects with a thrown value.  What the exchange yields is decided by
  the world outside the program (server, network), whose state has type \<open>'b\<close> and may
  change with every request.
\<close>

record 'b todosApi =
  fetchAllTodos :: "'b \<Rightarrow> (exn + Todo list) \<times> 'b"
  searchTodos :: "jsstring \<Rightarrow> 'b \<Rightarrow> (exn + Todo list) \<times> 'b"
  createTodo :: "CreateTodoDto \<Rightarrow> 'b \<Rightarrow> (exn + Todo) \<times> 'b"
  updateTodo :: "int \<Rightarrow> UpdateTodoDto \<Rightarrow> 'b \<Rightarrow> (exn + Todo) \<times> 'b"
  deleteTodo :: "int \<Rightarrow> 'b \<Rightarrow> (exn + unit) \<times> 'b"

datatype api_call =
    FetchAllTodos
  | SearchTodos jsstring
  | CreateTodo CreateTodoDto
  | UpdateTodo int UpdateTodoDto
  | DeleteTodo int

section \<open>The state of the hook \<open>useTodos\<close>\<close>

record hook_state =
  todos :: "Todo list"
  loading :: bool
  error :: jsstring
  initialLoading :: bool

text \<open>
  The world an operation of the hook runs in: the state of the hook, the state of the
  outside, the requests issued so far (each with the hook state that is rendered while
  the request is pending), and the delays in milliseconds of the pending timeouts that
  will clear the error message.  An operation is followed until every promise it started
  has settled, with no other operation in between; so the list \<open>todos\<close> that the closure
  of the operation captured is the list of the state it starts in.
\<close>

record 'b world =
  hook :: hook_state
  outside :: 'b
  calls :: "(api_call \<times> hook_state) list"
  timers :: "nat list"

definition setTodos :: "Todo list \<Rightarrow> 'b world \<Rightarrow> 'b world" where
  "setTodos v w = w\<lparr>hook := (hook w)\<lparr>todos := v\<rparr>\<rparr>"

definition setLoading :: "bool \<Rightarrow> 'b world \<Rightarrow> 'b world" where
  "setLoading v w = w\<lparr>hook := (hook w)\<lparr>loading := v\<rparr>\<rparr>"

definition setError :: "jsstring \<Rightarrow> 'b world \<Rightarrow> 'b world" where
  "setError v w = w\<lparr>hook := (hook w)\<lparr>error := v\<rparr>\<rparr>"

definition setInitialLoading :: "bool \<Rightarrow> 'b world \<Rightarrow> 'b world" where
  "setInitialLoading v w = w\<lparr>hook := (hook w)\<lparr>initialLoading := v\<rparr>\<rparr>"

definition setTimeout :: "nat \<Rightarrow> 'b world \<Rightarrow> 'b world" where
  "setTimeout ms w = w\<lparr>timers := timers w @ [ms]\<rparr>"

definition await :: "api_call \<Rightarrow> ('b \<Rightarrow> 'r \<times> 'b) \<Rightarrow> 'b world \<Rightarrow> 'r \<times> 'b world" where
  "await c request w =
     (case request (outside w) of
        (r, b) \<Rightarrow> (r, w\<lparr>outside := b, calls := calls w @ [(c, hook w)]\<rparr>))"

definition handleApiError :: "exn \<Rightarrow> jsstring \<Rightarrow> 'b world \<Rightarrow> 'b world" where
  "handleApiError e defaultMessage w =
     (let errorMessage = (case e of Error message \<Rightarrow> message | NonError \<Rightarrow> defaultMessage)
      in setTimeout 5000 (setError errorMessage w))"

definition fetchTodos :: "'b todosApi \<Rightarrow> 'b world \<Rightarrow> 'b world" where
  "fetchTodos api w0 =
     (let w1 = setInitialLoading True w0;
          (r, w2) = await FetchAllTodos (fetchAllTodos api) w1;
          w3 = (case r of
                  Inr data \<Rightarrow> setTodos data w2
                | Inl e \<Rightarrow> setTodos [] (handleApiError e (str ''Error al cargar las tareas'') w2))
      in setInitialLoading False w3)"

definition addTodo :: "'b todosApi \<Rightarrow> CreateTodoDto \<Rightarrow> 'b world \<Rightarrow> bool \<times> 'b world" where
  "addTodo api todoData w0 =
     (if trim (title todoData) = [] \<or> trim (description todoData) = [] then
        (False,
         setTimeout 3000
           (setError (str (''T'' @ CHR 0xED # ''tulo y descripci'' @ CHR 0xF3 # ''n son requeridos'')) w0))
      else
        let w1 = setLoading True w0;
            dto = \<lparr>title = trim (title todoData), description = trim (description todoData)\<rparr>;
            (r, w2) = await (CreateTodo dto) (createTodo api dto) w1
        in case r of
             Inr newTodo \<Rightarrow> (True, setLoading False (setTodos (todos (hook w0) @ [newTodo]) w2))
           | Inl e \<Rightarrow> (False, setLoading False (handleApiError e (str ''Error al crear la tarea'') w2)))"

definition searchTodos :: "'b todosApi \<Rightarrow> jsstring \<Rightarrow> 'b world \<Rightarrow> 'b world" where
  "searchTodos api query w0 =
     (if trim query = [] then fetchTodos api w0
      else
        let w1 = setLoading True w0;
            (r, w2) = await (SearchTodos query) (todosApi.searchTodos api query) w1;
            w3 = (case r of
                    Inr data \<Rightarrow> setTodos data w2
                  | Inl e \<Rightarrow> handleApiError e (str ''Error al buscar tareas'') w2)
        in setLoading False w3)"

definition toggleTodo :: "'b todosApi \<Rightarrow> int \<Rightarrow> 'b world \<Rightarrow> 'b world" where
  "toggleTodo api i w0 =
     (case find (\<lambda>t. id_todo t = i) (todos (hook w0)) of
        None \<Rightarrow> w0
      | Some todo \<Rightarrow>
          let newStatus = (if status todo = COMPLETED then PENDING else COMPLETED);
              dto = \<lparr>title = title todo, description = description todo, status = newStatus\<rparr>;
              (r, w1) = await (UpdateTodo i dto) (updateTodo api i dto) w0
          in (case r of
                Inr updatedTodo \<Rightarrow>
                  setTodos (map (\<lambda>t. if id_todo t = i then updatedTodo else t) (todos (hook w0))) w1
              | Inl e \<Rightarrow> handleApiError e (str ''Error al actualizar la tarea'') w1))"

text \<open>
  \<open>deleteMultipleTodos\<close> starts one \<open>deleteTodo\<close> per id, in the order of the ids, and waits
  with \<open>Promise.all\<close>: every request is issued whatever the others yield, and the whole
  rejects as soon as one of them rejects.  The model settles the requests in the order
  they were issued, so the rejection that surfaces is the first one in that order.
\<close>

primrec deletePromises :: "'b todosApi \<Rightarrow> int list \<Rightarrow> 'b world \<Rightarrow> (exn + unit) list \<times> 'b world" where
  "deletePromises api [] w = ([], w)"
| "deletePromises api (i # ids) w =
     (let (r, w1) = await (DeleteTodo i) (deleteTodo api i) w;
          (rs, w2) = deletePromises api ids w1
      in (r # rs, w2))"

primrec Promise_all :: "(exn + 'a) list \<Rightarrow> exn + 'a list" where
  "Promise_all [] = Inr []"
| "Promise_all (p # ps) =
     (case p of
        Inl e \<Rightarrow> Inl e
      | Inr v \<Rightarrow> (case Promise_all ps of Inl e \<Rightarrow> Inl e | Inr vs \<Rightarrow> Inr (v # vs)))"

definition deleteMultipleTodos :: "'b todosApi \<Rightarrow> int list \<Rightarrow> 'b world \<Rightarrow> (exn + unit) \<times> 'b world" where
  "deleteMultipleTodos api ids w =
     (let (deleted, w1) = deletePromises api ids w
      in (case Promise_all deleted of Inl e \<Rightarrow> Inl e | Inr _ \<Rightarrow> Inr (), w1))"

text \<open>
  \<open>window.confirm\<close> shows the message and yields the answer of the user, who is part of
  the outside world.
\<close>

definition deleteAllCompleted ::
    "'b todosApi \<Rightarrow> (jsstring \<Rightarrow> 'b \<Rightarrow> bool) \<Rightarrow> 'b world \<Rightarrow> 'b world" where
  "deleteAllCompleted api confirm w0 =
     (let completedTodos = filter (\<lambda>todo. status todo = COMPLETED) (todos (hook w0))
      in if length completedTodos = 0 then w0
         else if \<not> confirm (str (CHR 0xBF # ''Est'' @ CHR 0xE1 # ''s seguro de eliminar '')
                              @ toString (length completedTodos)
                              @ str '' tareas completadas?'') (outside w0)
         then w0
         else
           let w1 = setLoading True w0;
               completedIds = map id_todo completedTodos;
               (r, w2) = deleteMultipleTodos api completedIds w1;
               w3 = (case r of
                       Inr _ \<Rightarrow> setTodos (filter (\<lambda>todo. status todo \<noteq> COMPLETED) (todos (hook w0))) w2
                     | Inl e \<Rightarrow> handleApiError e (str ''Error al eliminar tareas completadas'') w2)
           in setLoading False w3)"

definition getFilteredTodos :: "hook_state \<Rightarrow> FilterType \<Rightarrow> Todo list" where
  "getFilteredTodos s f =
     (case f of
        filter_active \<Rightarrow> filter (\<lambda>todo. status todo = PENDING \<or> status todo = IN_PROGRESS) (todos s)
      | filter_completed \<Rightarrow> filter (\<lambda>todo. status todo = COMPLETED) (todos s)
      | filter_cancelled \<Rightarrow> filter (\<lambda>todo. status todo = CANCELLED) (todos s)
      | _ \<Rightarrow> todos s)"

section \<open>The authentication gate \<open>AuthProvider\<close>\<close>

text \<open>
  The state of the component, and what it renders: one of the two placeholders (a
  paragraph with the given text) or the context provider around the children.  Of the
  context value the model keeps the three state fields; \<open>login\<close>, \<open>logout\<close> and \<open>user\<close>
  belong to the identity client.
\<close>

record auth_state =
  initialized :: bool
  authenticated :: bool
  token :: "jsstring option"

datatype 'c element = Placeholder jsstring | AuthContext_Provider auth_state 'c

definition AuthProvider :: "auth_state \<Rightarrow> 'c \<Rightarrow> 'c element" where
  "AuthProvider s children =
     (if \<not> initialized s then
        Placeholder (str (''Inicializando autenticaci'' @ CHR 0xF3 # ''n'') @ [0x2026])
      else if \<not> authenticated s then
        Placeholder (str ''No autenticado. Redirigiendo al login'' @ [0x2026])
      else AuthContext_Provider s children)"

section \<open>Specification vocabulary and example worlds\<close>

text \<open>The text that \<open>deleteAllCompleted\<close> passes to \<open>window.confirm\<close> for \<open>n\<close> completed tasks.\<close>

definition confirmMessage :: "nat \<Rightarrow> jsstring" where
  "confirmMessage n = str (CHR 0xBF # ''Est'' @ CHR 0xE1 # ''s seguro de eliminar '') @ toString n
                        @ str '' tareas completadas?''"

text \<open>
  Three concrete servers, whose state is a counter: one that accepts everything and echoes
  what it is sent, one that rejects every request except the deletion of an id other than
  2, and one that accepts the updates of task 2 only, stamps them and counts every update.
\<close>

definition task :: "int \<Rightarrow> string \<Rightarrow> TodoStatus \<Rightarrow> Todo" where
  "task i t st = \<lparr>title = str t, description = str ''-'', status = st, id_todo = i,
                 createdAt = None, updatedAt = None\<rparr>"

definition echo_server :: "nat todosApi" where
  "echo_server =
     \<lparr>fetchAllTodos = (\<lambda>b. (Inr [task 1 ''milk'' PENDING, task 2 ''bread'' COMPLETED], b)),
      searchTodos = (\<lambda>q b. (Inr [task 1 ''milk'' PENDING], b)),
      createTodo = (\<lambda>d b. (Inr \<lparr>title = title d, description = description d, status = PENDING,
                               id_todo = int b, createdAt = None, updatedAt = None\<rparr>, Suc b)),
      updateTodo = (\<lambda>i d b. (Inr \<lparr>title = title d, description = description d, status = status d,
                                 id_todo = i, createdAt = None, updatedAt = None\<rparr>, b)),
      deleteTodo = (\<lambda>i b. (Inr (), b))\<rparr>"

definition failing_server :: "nat todosApi" where
  "failing_server =
     \<lparr>fetchAllTodos = (\<lambda>b. (Inl (Error (str ''Error 500: Internal Server Error'')), b)),
      searchTodos = (\<lambda>q b. (Inl (Error (str ''Error 500: Internal Server Error'')), b)),
      createTodo = (\<lambda>d b. (Inl (Error (str ''Error 500: Internal Server Error'')), b)),
      updateTodo = (\<lambda>i d b. (Inl (Error (str ''Error 500: Internal Server Error'')), b)),
      deleteTodo = (\<lambda>i b. (if i = 2 then Inl (Error (str ''Error 500: Internal Server Error''))
                             else Inr (), b))\<rparr>"

definition selective_server :: "nat todosApi" where
  "selective_server =
     \<lparr>fetchAllTodos = (\<lambda>b. (Inr [], b)),
      searchTodos = (\<lambda>q b. (Inr [], b)),
      createTodo = (\<lambda>d b. (Inl (Error (str ''Error 403: Forbidden'')), b)),
      updateTodo = (\<lambda>i d b. (if i = 2
                               then Inr \<lparr>title = title d, description = description d, status = status d,
                                         id_todo = i, createdAt = None, updatedAt = Some (str ''now'')\<rparr>
                               else Inl (Error (str ''Error 404: Not Found'')), Suc b)),
      deleteTodo = (\<lambda>i b. (Inr (), b))\<rparr>"

definition world0 :: "Todo list \<Rightarrow> nat world" where
  "world0 ts = \<lparr>hook = \<lparr>todos = ts, loading = False, error = [], initialLoading = False\<rparr>,
               outside = 100, calls = [], timers = []\<rparr>"

section \<open>Auxiliary facts\<close>

lemmas setters = setTodos_def setLoading_def setError_def setInitialLoading_def setTimeout_def
  await_def handleApiError_def

lemma count_id_fresh:
  "i \<notin> id_todo ` set ts \<Longrightarrow> filter (\<lambda>t. id_todo t = i) ts = []"
  by (induction ts) auto

lemma find_replaced:
  "find (\<lambda>t. id_todo t = i) ts = Some t0 \<Longrightarrow> id_todo u = i \<Longrightarrow>
   find (\<lambda>t. id_todo t = i) (map (\<lambda>t. if id_todo t = i then u else t) ts) = Some u"
  by (induction ts) (auto split: if_splits)

lemma replaced_entries:
  "t \<in> set (map (\<lambda>t. if id_todo t = i then u else t) ts) \<Longrightarrow> id_todo t = i \<Longrightarrow> t = u"
  by (induction ts) (auto split: if_splits)

lemma await_world:
  "hook (snd (await c request w)) = hook w \<and>
   timers (snd (await c request w)) = timers w \<and>
   calls (snd (await c request w)) = calls w @ [(c, hook w)] \<and>
   outside (snd (await c request w)) = snd (request (outside w)) \<and>
   fst (await c request w) = fst (request (outside w))"
  by (simp add: await_def split_def)

lemma deletePromises_world:
  "hook (snd (deletePromises api ids w)) = hook w \<and>
   timers (snd (deletePromises api ids w)) = timers w \<and>
   calls (snd (deletePromises api ids w)) = calls w @ map (\<lambda>i. (DeleteTodo i, hook w)) ids"
  by (induction ids arbitrary: w) (simp_all add: await_world Let_def split_def)

lemma deletePromises_outside:
  "outside v = outside w \<Longrightarrow>
   fst (deletePromises api ids v) = fst (deletePromises api ids w) \<and>
   outside (snd (deletePromises api ids v)) = outside (snd (deletePromises api ids w))"
proof (induction ids arbitrary: v w)
  case Nil
  then show ?case by simp
next
  case (Cons i ids)
  let ?v = "snd (await (DeleteTodo i) (deleteTodo api i) v)"
  let ?w = "snd (await (DeleteTodo i) (deleteTodo api i) w)"
  have "outside ?v = outside ?w"
    using Cons.prems by (simp add: await_world)
  from Cons.IH [OF this] show ?case
    using Cons.prems by (simp add: await_world Let_def split_def)
qed

lemma Promise_all_rejects:
  "isl (Promise_all ps) = (\<exists>p \<in> set ps. isl p)"
  by (induction ps) (auto split: sum.splits)

lemma deleteMultipleTodos_world:
  "hook (snd (deleteMultipleTodos api ids w)) = hook w \<and>
   timers (snd (deleteMultipleTodos api ids w)) = timers w \<and>
   calls (snd (deleteMultipleTodos api ids w)) = calls w @ map (\<lambda>i. (DeleteTodo i, hook w)) ids"
  using deletePromises_world [of api ids w]
  by (simp add: deleteMultipleTodos_def Let_def split_def)

lemma deleteMultipleTodos_outside:
  "outside v = outside w \<Longrightarrow>
   fst (deleteMultipleTodos api ids v) = fst (deleteMultipleTodos api ids w)"
  using deletePromises_outside [of v w api ids]
  by (simp add: deleteMultipleTodos_def Let_def split_def)

lemma deleteMultipleTodos_rejects:
  "isl (fst (deleteMultipleTodos api ids w)) = (\<exists>p \<in> set (fst (deletePromises api ids w)). isl p)"
  using Promise_all_rejects [of "fst (deletePromises api ids w)"]
  by (cases "Promise_all (fst (deletePromises api ids w))")
     (simp_all add: deleteMultipleTodos_def Let_def split_def)

lemma deleteAllCompleted_unfold:
  "deleteAllCompleted api confirm w =
     (let completedTodos = filter (\<lambda>todo. status todo = COMPLETED) (todos (hook w))
      in if completedTodos = [] \<or> \<not> confirm (confirmMessage (length completedTodos)) (outside w)
         then w
         else let r = deleteMultipleTodos api (map id_todo completedTodos) (setLoading True w)
              in setLoading False
                   (case fst r of
                      Inr _ \<Rightarrow> setTodos (filter (\<lambda>todo. status todo \<noteq> COMPLETED) (todos (hook w))) (snd r)
                    | Inl e \<Rightarrow> handleApiError e (str ''Error al eliminar tareas completadas'') (snd r)))"
  by (simp add: deleteAllCompleted_def Let_def split_def confirmMessage_def)

section \<open>Verified properties\<close>

subsection \<open>Removing all completed tasks\<close>

text \<open>
  Claim C1, as amended.  \<open>deleteAllCompleted\<close> computes the tasks with status COMPLETED.
  When there is none, or when the user declines the confirmation, nothing happens: no
  request, the world unchanged.  Otherwise it issues one \<open>deleteTodo\<close> request per completed
  id, in order, with \<open>loading\<close> set while they are pending, and clears \<open>loading\<close> at the end.
  \<open>deleteMultipleTodos\<close> rejects exactly when one of the deletions rejects.  When it
  resolves, the list becomes the tasks that are not COMPLETED, so no COMPLETED task is
  left; when it rejects, the list is left as it was and the error message is set.
\<close>

theorem deleteAllCompleted_behaviour:
  "let completedTodos = filter (\<lambda>todo. status todo = COMPLETED) (todos (hook w));
       completedIds = map id_todo completedTodos;
       w' = deleteAllCompleted api confirm w
   in if completedTodos = [] \<or> \<not> confirm (confirmMessage (length completedTodos)) (outside w)
      then w' = w
      else calls w' = calls w @ map (\<lambda>i. (DeleteTodo i, (hook w)\<lparr>loading := True\<rparr>)) completedIds \<and>
           loading (hook w') = False \<and>
           isl (fst (deleteMultipleTodos api completedIds w)) =
             (\<exists>p \<in> set (fst (deletePromises api completedIds w)). isl p) \<and>
           (case fst (deleteMultipleTodos api completedIds w) of
              Inr _ \<Rightarrow>
                todos (hook w') = filter (\<lambda>todo. status todo \<noteq> COMPLETED) (todos (hook w)) \<and>
                COMPLETED \<notin> status ` set (todos (hook w')) \<and>
                error (hook w') = error (hook w)
            | Inl e \<Rightarrow>
                todos (hook w') = todos (hook w) \<and>
                error (hook w') =
                  (case e of Error message \<Rightarrow> message
                   | NonError \<Rightarrow> str ''Error al eliminar tareas completadas''))"
proof -
  define completedIds where
    "completedIds = map id_todo (filter (\<lambda>todo. status todo = COMPLETED) (todos (hook w)))"
  define r where "r = deleteMultipleTodos api completedIds (setLoading True w)"
  have same: "fst (deleteMultipleTodos api completedIds w) = fst r"
    using deleteMultipleTodos_outside [of w "setLoading True w" api completedIds]
    by (simp add: r_def setLoading_def)
  have after: "hook (snd r) = (hook w)\<lparr>loading := True\<rparr>"
      "calls (snd r) = calls w @ map (\<lambda>i. (DeleteTodo i, (hook w)\<lparr>loading := True\<rparr>)) completedIds"
    using deleteMultipleTodos_world [of api completedIds "setLoading True w"]
    by (simp_all add: r_def setLoading_def)
  have rejects: "isl (fst (deleteMultipleTodos api completedIds w)) =
                   (\<exists>p \<in> set (fst (deletePromises api completedIds w)). isl p)"
    by (rule deleteMultipleTodos_rejects)
  have finished: "calls (setLoading False (case fst r of
                  Inr _ \<Rightarrow> setTodos ts (snd r)
                | Inl e \<Rightarrow> handleApiError e msg (snd r))) = calls (snd r) \<and>
              loading (hook (setLoading False (case fst r of
                  Inr _ \<Rightarrow> setTodos ts (snd r)
                | Inl e \<Rightarrow> handleApiError e msg (snd r)))) = False" for ts msg
    by (cases "fst r") (simp_all add: setters)
  have outcome: "case fst r of
          Inr _ \<Rightarrow>
            todos (hook (setLoading False (setTodos ts (snd r)))) = ts \<and>
            error (hook (setLoading False (setTodos ts (snd r)))) = error (hook w)
        | Inl e \<Rightarrow>
            todos (hook (setLoading False (handleApiError e msg (snd r)))) = todos (hook w) \<and>
            error (hook (setLoading False (handleApiError e msg (snd r)))) =
              (case e of Error message \<Rightarrow> message | NonError \<Rightarrow> msg)" for ts msg
    using after(1) by (cases "fst r") (simp_all add: setters split: exn.splits)
  show ?thesis
    unfolding deleteAllCompleted_unfold Let_def completedIds_def [symmetric] r_def [symmetric] same
    using after(2) finished rejects [unfolded same] outcome
    by (cases "fst r") (auto simp add: same)
qed

text \<open>
  The theorem at three tasks of which two are completed, on the server that accepts every
  deletion: the list shrinks to the one pending task; and at a list without a completed
  task, where nothing happens.
\<close>

theorem deleteAllCompleted_behaviour_witness:
  "filter (\<lambda>todo. status todo = COMPLETED)
     (todos (hook (world0 [task 1 ''milk'' PENDING, task 2 ''bread'' COMPLETED, task 3 ''eggs'' COMPLETED]))) =
     [task 2 ''bread'' COMPLETED, task 3 ''eggs'' COMPLETED] \<and>
   fst (deleteMultipleTodos echo_server [2, 3]
          (world0 [task 1 ''milk'' PENDING, task 2 ''bread'' COMPLETED, task 3 ''eggs'' COMPLETED])) = Inr () \<and>
   map fst (calls (deleteAllCompleted echo_server (\<lambda>message b. True)
      (world0 [task 1 ''milk'' PENDING, task 2 ''bread'' COMPLETED, task 3 ''eggs'' COMPLETED]))) =
     [DeleteTodo 2, DeleteTodo 3] \<and>
   todos (hook (deleteAllCompleted echo_server (\<lambda>message b. True)
      (world0 [task 1 ''milk'' PENDING, task 2 ''bread'' COMPLETED, task 3 ''eggs'' COMPLETED]))) =
     [task 1 ''milk'' PENDING] \<and>
   deleteAllCompleted echo_server (\<lambda>message b. True) (world0 [task 1 ''milk'' PENDING]) =
     world0 [task 1 ''milk'' PENDING]"
proof -
  let ?w = "world0 [task 1 ''milk'' PENDING, task 2 ''bread'' COMPLETED, task 3 ''eggs'' COMPLETED]"
  have completed: "filter (\<lambda>todo. status todo = COMPLETED) (todos (hook ?w)) =
                     [task 2 ''bread'' COMPLETED, task 3 ''eggs'' COMPLETED]"
    and others: "filter (\<lambda>todo. status todo \<noteq> COMPLETED) (todos (hook ?w)) = [task 1 ''milk'' PENDING]"
    and none: "filter (\<lambda>todo. status todo = COMPLETED) (todos (hook (world0 [task 1 ''milk'' PENDING]))) = []"
    and ids: "map id_todo [task 2 ''bread'' COMPLETED, task 3 ''eggs'' COMPLETED] = [2, 3]"
    and empty: "calls ?w = []"
    by (simp_all add: world0_def task_def)
  have deleted: "fst (deleteMultipleTodos echo_server [2, 3] ?w) = Inr ()"
    by (simp add: deleteMultipleTodos_def await_def echo_server_def)
  note at_w = deleteAllCompleted_behaviour [where w = ?w and api = echo_server
      and confirm = "\<lambda>message b. True", unfolded Let_def completed ids deleted others empty]
  have removed: "map fst (calls (deleteAllCompleted echo_server (\<lambda>message b. True) ?w)) =
                   [DeleteTodo 2, DeleteTodo 3] \<and>
                 todos (hook (deleteAllCompleted echo_server (\<lambda>message b. True) ?w)) =
                   [task 1 ''milk'' PENDING]"
    using at_w by simp
  have noop: "deleteAllCompleted echo_server (\<lambda>message b. True) (world0 [task 1 ''milk'' PENDING]) =
                world0 [task 1 ''milk'' PENDING]"
    using deleteAllCompleted_behaviour [where w = "world0 [task 1 ''milk'' PENDING]"
        and api = echo_server and confirm = "\<lambda>message b. True", unfolded Let_def none]
    by simp
  show ?thesis
    using completed deleted removed noop by simp
qed

text \<open>
  Claim C1 as stated fails.  The user confirms, the deletion of task 1 succeeds and the
  deletion of task 2 is rejected: both requests are issued, and the list afterwards still
  holds the two completed tasks.  And when the user declines, the completed tasks stay and
  no request is issued.
\<close>

theorem deleteAllCompleted_counterexample:
  "fst (deletePromises failing_server [1, 2]
          (world0 [task 1 ''milk'' COMPLETED, task 2 ''bread'' COMPLETED, task 3 ''eggs'' PENDING])) =
     [Inr (), Inl (Error (str ''Error 500: Internal Server Error''))] \<and>
   map fst (calls (deleteAllCompleted failing_server (\<lambda>message b. True)
      (world0 [task 1 ''milk'' COMPLETED, task 2 ''bread'' COMPLETED, task 3 ''eggs'' PENDING]))) =
     [DeleteTodo 1, DeleteTodo 2] \<and>
   todos (hook (deleteAllCompleted failing_server (\<lambda>message b. True)
      (world0 [task 1 ''milk'' COMPLETED, task 2 ''bread'' COMPLETED, task 3 ''eggs'' PENDING]))) =
     [task 1 ''milk'' COMPLETED, task 2 ''bread'' COMPLETED, task 3 ''eggs'' PENDING] \<and>
   status (task 1 ''milk'' COMPLETED) = COMPLETED \<and>
   deleteAllCompleted echo_server (\<lambda>message b. False)
      (world0 [task 1 ''milk'' COMPLETED, task 2 ''bread'' COMPLETED, task 3 ''eggs'' PENDING]) =
     world0 [task 1 ''milk'' COMPLETED, task 2 ''bread'' COMPLETED, task 3 ''eggs'' PENDING]"
  by (simp add: deleteAllCompleted_def deleteMultipleTodos_def setters failing_server_def
      world0_def task_def)

subsection \<open>Toggling completion\<close>

text \<open>
  Claim C2.  When no task of the list has the id, \<open>toggleTodo\<close> changes nothing and issues
  no request.  Otherwise exactly one update is issued for the first task with that id; it
  carries the title and the description of the task, and the status PENDING when the task
  is COMPLETED, COMPLETED when it is PENDING, IN_PROGRESS or CANCELLED.  When the update
  resolves with a task \<open>u\<close>, every entry with that id is replaced by \<open>u\<close>; so when the server
  echoes the id and the submitted status, the task found under the id carries the new
  status.
\<close>

theorem toggleTodo_behaviour:
  "(find (\<lambda>t. id_todo t = i) (todos (hook w)) = None) = (i \<notin> id_todo ` set (todos (hook w))) \<and>
   (case find (\<lambda>t. id_todo t = i) (todos (hook w)) of
     None \<Rightarrow> toggleTodo api i w = w
   | Some todo \<Rightarrow>
       (let newStatus = (case status todo of
                           PENDING \<Rightarrow> COMPLETED | IN_PROGRESS \<Rightarrow> COMPLETED
                         | COMPLETED \<Rightarrow> PENDING | CANCELLED \<Rightarrow> COMPLETED);
            dto = \<lparr>title = title todo, description = description todo, status = newStatus\<rparr>;
            w' = toggleTodo api i w
        in calls w' = calls w @ [(UpdateTodo i dto, hook w)] \<and>
           (\<forall>u b. updateTodo api i dto (outside w) = (Inr u, b) \<longrightarrow>
              todos (hook w') = map (\<lambda>t. if id_todo t = i then u else t) (todos (hook w)) \<and>
              (\<forall>t \<in> set (todos (hook w')). id_todo t = i \<longrightarrow> t = u) \<and>
              (id_todo u = i \<and> status u = newStatus \<longrightarrow>
                 (\<exists>t. find (\<lambda>t. id_todo t = i) (todos (hook w')) = Some t \<and> status t = newStatus)))))"
proof (rule conjI)
  show "(find (\<lambda>t. id_todo t = i) (todos (hook w)) = None) = (i \<notin> id_todo ` set (todos (hook w)))"
    by (auto simp add: find_None_iff)
next
  show "case find (\<lambda>t. id_todo t = i) (todos (hook w)) of
     None \<Rightarrow> toggleTodo api i w = w
   | Some todo \<Rightarrow>
       (let newStatus = (case status todo of
                           PENDING \<Rightarrow> COMPLETED | IN_PROGRESS \<Rightarrow> COMPLETED
                         | COMPLETED \<Rightarrow> PENDING | CANCELLED \<Rightarrow> COMPLETED);
            dto = \<lparr>title = title todo, description = description todo, status = newStatus\<rparr>;
            w' = toggleTodo api i w
        in calls w' = calls w @ [(UpdateTodo i dto, hook w)] \<and>
           (\<forall>u b. updateTodo api i dto (outside w) = (Inr u, b) \<longrightarrow>
              todos (hook w') = map (\<lambda>t. if id_todo t = i then u else t) (todos (hook w)) \<and>
              (\<forall>t \<in> set (todos (hook w')). id_todo t = i \<longrightarrow> t = u) \<and>
              (id_todo u = i \<and> status u = newStatus \<longrightarrow>
                 (\<exists>t. find (\<lambda>t. id_todo t = i) (todos (hook w')) = Some t \<and> status t = newStatus))))"
  proof (cases "find (\<lambda>t. id_todo t = i) (todos (hook w))")
    case None
    then show ?thesis by (simp add: toggleTodo_def)
  next
    case (Some todo)
    have s: "(if status todo = COMPLETED then PENDING else COMPLETED) =
             (case status todo of PENDING \<Rightarrow> COMPLETED | IN_PROGRESS \<Rightarrow> COMPLETED
              | COMPLETED \<Rightarrow> PENDING | CANCELLED \<Rightarrow> COMPLETED)"
      by (cases "status todo") simp_all
    show ?thesis
      using Some find_replaced [OF Some] replaced_entries [of _ i _ "todos (hook w)"]
      by (auto simp add: toggleTodo_def setters Let_def s split: prod.splits sum.splits)
  qed
qed

text \<open>
  The theorem at a completed task 2, which becomes PENDING, and at the absent id 7.
\<close>

theorem toggleTodo_behaviour_witness:
  "find (\<lambda>t. id_todo t = 2) (todos (hook (world0 [task 1 ''milk'' PENDING, task 2 ''bread'' COMPLETED]))) =
     Some (task 2 ''bread'' COMPLETED) \<and>
   updateTodo echo_server 2 \<lparr>title = str ''bread'', description = str ''-'', status = PENDING\<rparr> 100 =
     (Inr (task 2 ''bread'' PENDING), 100) \<and>
   calls (toggleTodo echo_server 2 (world0 [task 1 ''milk'' PENDING, task 2 ''bread'' COMPLETED])) =
     [(UpdateTodo 2 \<lparr>title = str ''bread'', description = str ''-'', status = PENDING\<rparr>,
       hook (world0 [task 1 ''milk'' PENDING, task 2 ''bread'' COMPLETED]))] \<and>
   todos (hook (toggleTodo echo_server 2 (world0 [task 1 ''milk'' PENDING, task 2 ''bread'' COMPLETED]))) =
     [task 1 ''milk'' PENDING, task 2 ''bread'' PENDING] \<and>
   find (\<lambda>t. id_todo t = 7) (todos (hook (world0 [task 1 ''milk'' PENDING]))) = None \<and>
   toggleTodo echo_server 7 (world0 [task 1 ''milk'' PENDING]) = world0 [task 1 ''milk'' PENDING]"
proof -
  have found: "find (\<lambda>t. id_todo t = 2)
                 (todos (hook (world0 [task 1 ''milk'' PENDING, task 2 ''bread'' COMPLETED]))) =
               Some (task 2 ''bread'' COMPLETED)"
    by (simp add: world0_def task_def)
  have absent: "find (\<lambda>t. id_todo t = 7) (todos (hook (world0 [task 1 ''milk'' PENDING]))) = None"
    by (simp add: world0_def task_def)
  have upd: "updateTodo echo_server 2
               \<lparr>title = str ''bread'', description = str ''-'', status = PENDING\<rparr> 100 =
             (Inr (task 2 ''bread'' PENDING), 100)"
    by (simp add: echo_server_def task_def)
  have fields: "status (task 2 ''bread'' COMPLETED) = COMPLETED"
      "title (task 2 ''bread'' COMPLETED) = str ''bread''"
      "description (task 2 ''bread'' COMPLETED) = str ''-''"
      "outside (world0 [task 1 ''milk'' PENDING, task 2 ''bread'' COMPLETED]) = 100"
      "calls (world0 [task 1 ''milk'' PENDING, task 2 ''bread'' COMPLETED]) = []"
    by (simp_all add: task_def world0_def)
  note at_2 = toggleTodo_behaviour [where i = 2 and api = echo_server
      and w = "world0 [task 1 ''milk'' PENDING, task 2 ''bread'' COMPLETED]",
      THEN conjunct2, unfolded found option.case Let_def fields TodoStatus.case append_Nil]
  have present: "calls (toggleTodo echo_server 2 (world0 [task 1 ''milk'' PENDING, task 2 ''bread'' COMPLETED])) =
     [(UpdateTodo 2 \<lparr>title = str ''bread'', description = str ''-'', status = PENDING\<rparr>,
       hook (world0 [task 1 ''milk'' PENDING, task 2 ''bread'' COMPLETED]))] \<and>
     todos (hook (toggleTodo echo_server 2 (world0 [task 1 ''milk'' PENDING, task 2 ''bread'' COMPLETED]))) =
     [task 1 ''milk'' PENDING, task 2 ''bread'' PENDING]"
    using at_2 [THEN conjunct1] at_2 [THEN conjunct2, rule_format, OF upd, THEN conjunct1]
    by (simp add: world0_def task_def)
  have noop: "toggleTodo echo_server 7 (world0 [task 1 ''milk'' PENDING]) = world0 [task 1 ''milk'' PENDING]"
    using toggleTodo_behaviour [where i = 7 and api = echo_server
        and w = "world0 [task 1 ''milk'' PENDING]", THEN conjunct2]
    by (simp add: absent)
  show ?thesis
    using found absent upd present noop by simp
qed

text \<open>
  Claim C3, as amended.  Let the list hold a task with the id, and let \<open>todo\<close> be the first
  such task.  Toggle the id twice in sequence, and let both updates that are issued
  resolve with a task that carries the id and the status submitted: the first update is
  issued in the starting world for \<open>todo\<close>, the second in the world the first one left for
  the task the first one returned.  Nothing is asked of any other request.  Then every entry
  with that id is the task the second update returned, it is the one found under the id,
  and its status is the status of \<open>todo\<close> when that is PENDING or COMPLETED, and PENDING when
  that is IN_PROGRESS or CANCELLED.
\<close>

theorem toggleTodo_twice:
  assumes found: "find (\<lambda>t. id_todo t = i) (todos (hook w)) = Some todo"
    and first: "updateTodo api i
                  \<lparr>title = title todo, description = description todo,
                   status = (if status todo = COMPLETED then PENDING else COMPLETED)\<rparr> (outside w) =
                (Inr u1, b1)"
    and echo1: "id_todo u1 = i \<and> status u1 = (if status todo = COMPLETED then PENDING else COMPLETED)"
    and second: "updateTodo api i
                   \<lparr>title = title u1, description = description u1,
                    status = (if status u1 = COMPLETED then PENDING else COMPLETED)\<rparr> b1 =
                 (Inr u2, b2)"
    and echo2: "id_todo u2 = i \<and> status u2 = (if status u1 = COMPLETED then PENDING else COMPLETED)"
  shows "find (\<lambda>t. id_todo t = i) (todos (hook (toggleTodo api i (toggleTodo api i w)))) = Some u2 \<and>
         (\<forall>t \<in> set (todos (hook (toggleTodo api i (toggleTodo api i w)))). id_todo t = i \<longrightarrow> t = u2) \<and>
         status u2 = (case status todo of
                        PENDING \<Rightarrow> PENDING | COMPLETED \<Rightarrow> COMPLETED
                      | IN_PROGRESS \<Rightarrow> PENDING | CANCELLED \<Rightarrow> PENDING)"
proof -
  let ?w1 = "toggleTodo api i w"
  let ?w2 = "toggleTodo api i ?w1"
  have once: "todos (hook ?w1) = map (\<lambda>t. if id_todo t = i then u1 else t) (todos (hook w))"
    and between: "outside ?w1 = b1"
    using found first by (simp_all add: toggleTodo_def setters)
  have found1: "find (\<lambda>t. id_todo t = i) (todos (hook ?w1)) = Some u1"
    using find_replaced [OF found, of u1] echo1 by (simp add: once)
  have twice: "todos (hook ?w2) = map (\<lambda>t. if id_todo t = i then u2 else t) (todos (hook ?w1))"
    using found1 second between by (simp add: toggleTodo_def [of api i ?w1] setters)
  have found2: "find (\<lambda>t. id_todo t = i) (todos (hook ?w2)) = Some u2"
    using find_replaced [OF found1, of u2] echo2 by (simp add: twice)
  have all2: "\<forall>t \<in> set (todos (hook ?w2)). id_todo t = i \<longrightarrow> t = u2"
    using replaced_entries [of _ i u2 "todos (hook ?w1)"] by (simp only: twice) blast
  have restored: "status u2 = (case status todo of
                        PENDING \<Rightarrow> PENDING | COMPLETED \<Rightarrow> COMPLETED
                      | IN_PROGRESS \<Rightarrow> PENDING | CANCELLED \<Rightarrow> PENDING)"
    using echo1 echo2 by (cases "status todo") simp_all
  show ?thesis
    using found2 all2 restored by blast
qed

text \<open>
  The theorem at the completed task 2, on the server that accepts the updates of task 2
  only and rejects the update of task 1: task 2 is completed again after two toggles.
\<close>

theorem toggleTodo_twice_witness:
  "find (\<lambda>t. id_todo t = 2) (todos (hook (world0 [task 1 ''milk'' PENDING, task 2 ''bread'' COMPLETED]))) =
     Some (task 2 ''bread'' COMPLETED) \<and>
   updateTodo selective_server 2 \<lparr>title = str ''bread'', description = str ''-'', status = PENDING\<rparr> 100 =
     (Inr \<lparr>title = str ''bread'', description = str ''-'', status = PENDING, id_todo = 2,
           createdAt = None, updatedAt = Some (str ''now'')\<rparr>, 101) \<and>
   updateTodo selective_server 2 \<lparr>title = str ''bread'', description = str ''-'', status = COMPLETED\<rparr> 101 =
     (Inr \<lparr>title = str ''bread'', description = str ''-'', status = COMPLETED, id_todo = 2,
           createdAt = None, updatedAt = Some (str ''now'')\<rparr>, 102) \<and>
   updateTodo selective_server 1 \<lparr>title = str ''milk'', description = str ''-'', status = COMPLETED\<rparr> 100 =
     (Inl (Error (str ''Error 404: Not Found'')), 101) \<and>
   find (\<lambda>t. id_todo t = 2)
     (todos (hook (toggleTodo selective_server 2 (toggleTodo selective_server 2
        (world0 [task 1 ''milk'' PENDING, task 2 ''bread'' COMPLETED]))))) =
     Some \<lparr>title = str ''bread'', description = str ''-'', status = COMPLETED, id_todo = 2,
           createdAt = None, updatedAt = Some (str ''now'')\<rparr>"
proof -
  let ?w = "world0 [task 1 ''milk'' PENDING, task 2 ''bread'' COMPLETED]"
  let ?u1 = "\<lparr>title = str ''bread'', description = str ''-'', status = PENDING, id_todo = 2,
              createdAt = None, updatedAt = Some (str ''now'')\<rparr>"
  let ?u2 = "\<lparr>title = str ''bread'', description = str ''-'', status = COMPLETED, id_todo = 2,
              createdAt = None, updatedAt = Some (str ''now'')\<rparr>"
  have found: "find (\<lambda>t. id_todo t = 2) (todos (hook ?w)) = Some (task 2 ''bread'' COMPLETED)"
    by (simp add: world0_def task_def)
  have first: "updateTodo selective_server 2
                 \<lparr>title = title (task 2 ''bread'' COMPLETED),
                  description = description (task 2 ''bread'' COMPLETED),
                  status = (if status (task 2 ''bread'' COMPLETED) = COMPLETED then PENDING else COMPLETED)\<rparr>
                 (outside ?w) = (Inr ?u1, 101)"
    by (simp add: selective_server_def world0_def task_def)
  have echo1: "id_todo ?u1 = 2 \<and>
               status ?u1 = (if status (task 2 ''bread'' COMPLETED) = COMPLETED then PENDING else COMPLETED)"
    by (simp add: task_def)
  have second: "updateTodo selective_server 2
                  \<lparr>title = title ?u1, description = description ?u1,
                   status = (if status ?u1 = COMPLETED then PENDING else COMPLETED)\<rparr> 101 = (Inr ?u2, 102)"
    by (simp add: selective_server_def)
  have echo2: "id_todo ?u2 = 2 \<and> status ?u2 = (if status ?u1 = COMPLETED then PENDING else COMPLETED)"
    by simp
  have responses:
    "updateTodo selective_server 2 \<lparr>title = str ''bread'', description = str ''-'', status = PENDING\<rparr> 100 =
       (Inr ?u1, 101)"
    "updateTodo selective_server 2 \<lparr>title = str ''bread'', description = str ''-'', status = COMPLETED\<rparr> 101 =
       (Inr ?u2, 102)"
    "updateTodo selective_server 1 \<lparr>title = str ''milk'', description = str ''-'', status = COMPLETED\<rparr> 100 =
       (Inl (Error (str ''Error 404: Not Found'')), 101)"
    by (simp_all add: selective_server_def)
  show ?thesis
    using found responses toggleTodo_twice [OF found first echo1 second echo2, THEN conjunct1]
    by simp
qed

text \<open>
  Claim C3 as stated fails.  Task 5 is IN_PROGRESS; the server echoes both updates; the
  first toggle makes the task COMPLETED and the second makes it PENDING, which is not the
  status it started with.
\<close>

theorem toggleTodo_twice_counterexample:
  "updateTodo echo_server 5 \<lparr>title = str ''report'', description = str ''-'', status = COMPLETED\<rparr> 100 =
     (Inr (task 5 ''report'' COMPLETED), 100) \<and>
   updateTodo echo_server 5 \<lparr>title = str ''report'', description = str ''-'', status = PENDING\<rparr> 100 =
     (Inr (task 5 ''report'' PENDING), 100) \<and>
   todos (hook (world0 [task 5 ''report'' IN_PROGRESS])) = [task 5 ''report'' IN_PROGRESS] \<and>
   todos (hook (toggleTodo echo_server 5 (world0 [task 5 ''report'' IN_PROGRESS]))) =
     [task 5 ''report'' COMPLETED] \<and>
   todos (hook (toggleTodo echo_server 5 (toggleTodo echo_server 5 (world0 [task 5 ''report'' IN_PROGRESS])))) =
     [task 5 ''report'' PENDING] \<and>
   status (task 5 ''report'' PENDING) \<noteq> status (task 5 ''report'' IN_PROGRESS)"
  by (simp add: toggleTodo_def setters echo_server_def world0_def task_def)

subsection \<open>Adding a task\<close>

text \<open>
  Claim C4.  When the title or the description is empty after trimming, \<open>addTodo\<close> returns
  false, issues no request, leaves the outside world and the list of tasks as they were,
  and sets the error message to the fixed text, which is not empty.
\<close>

theorem addTodo_blank:
  assumes "trim (title todoData) = [] \<or> trim (description todoData) = []"
  shows "fst (addTodo api todoData w) = False \<and>
         calls (snd (addTodo api todoData w)) = calls w \<and>
         outside (snd (addTodo api todoData w)) = outside w \<and>
         todos (hook (snd (addTodo api todoData w))) = todos (hook w) \<and>
         error (hook (snd (addTodo api todoData w))) =
           str (''T'' @ CHR 0xED # ''tulo y descripci'' @ CHR 0xF3 # ''n son requeridos'') \<and>
         error (hook (snd (addTodo api todoData w))) \<noteq> []"
  using assms by (simp add: addTodo_def setters str_def)

text \<open>
  The theorem at a title of a space, a tab and an ideographic space.
\<close>

theorem addTodo_blank_witness:
  "(trim [0x20, 0x09, 0x3000] = [] \<or> trim (str ''2% milk'') = []) \<and>
   fst (addTodo echo_server \<lparr>title = [0x20, 0x09, 0x3000], description = str ''2% milk''\<rparr> (world0 [])) = False \<and>
   calls (snd (addTodo echo_server \<lparr>title = [0x20, 0x09, 0x3000], description = str ''2% milk''\<rparr> (world0 []))) = [] \<and>
   todos (hook (snd (addTodo echo_server \<lparr>title = [0x20, 0x09, 0x3000], description = str ''2% milk''\<rparr> (world0 [])))) = [] \<and>
   error (hook (snd (addTodo echo_server \<lparr>title = [0x20, 0x09, 0x3000], description = str ''2% milk''\<rparr> (world0 [])))) \<noteq> []"
proof -
  have blank: "trim (title \<lparr>title = [0x20, 0x09, 0x3000], description = str ''2% milk''\<rparr>) = [] \<or>
               trim (description \<lparr>title = [0x20, 0x09, 0x3000], description = str ''2% milk''\<rparr>) = []"
    by (simp add: trim_def isWhiteSpace_def)
  show ?thesis
    using blank addTodo_blank [OF blank, of echo_server "world0 []"]
    by (simp add: world0_def str_def)
qed

text \<open>
  Claim C5.  When the title and the description are not empty after trimming, \<open>addTodo\<close>
  issues exactly one request, a create with the trimmed values, with \<open>loading\<close> set while it
  is pending.  When the create resolves with a task, \<open>addTodo\<close> returns true and the list is
  the old list followed by that task; when the id of the task was in no entry of the old
  list, exactly one entry of the new list has it.
\<close>

theorem addTodo_create:
  assumes "trim (title todoData) \<noteq> []" and "trim (description todoData) \<noteq> []"
  shows "let dto = \<lparr>title = trim (title todoData), description = trim (description todoData)\<rparr>;
             r = addTodo api todoData w
         in calls (snd r) = calls w @ [(CreateTodo dto, (hook w)\<lparr>loading := True\<rparr>)] \<and>
            (\<forall>newTodo b. createTodo api dto (outside w) = (Inr newTodo, b) \<longrightarrow>
               fst r = True \<and>
               todos (hook (snd r)) = todos (hook w) @ [newTodo] \<and>
               (id_todo newTodo \<notin> id_todo ` set (todos (hook w)) \<longrightarrow>
                  length (filter (\<lambda>t. id_todo t = id_todo newTodo) (todos (hook (snd r)))) = 1))"
  using assms
  by (auto simp add: addTodo_def setters Let_def count_id_fresh split: prod.splits sum.splits)

text \<open>
  The theorem at a title and a description with surrounding blanks: the server receives
  the trimmed texts and the created task, with the fresh id 100, is appended.
\<close>

theorem addTodo_create_witness:
  "trim (str '' Buy milk'') = str ''Buy milk'' \<and>
   trim (str ''2% milk, 1 gallon '') = str ''2% milk, 1 gallon'' \<and>
   createTodo echo_server \<lparr>title = str ''Buy milk'', description = str ''2% milk, 1 gallon''\<rparr> 100 =
     (Inr \<lparr>title = str ''Buy milk'', description = str ''2% milk, 1 gallon'', status = PENDING,
           id_todo = 100, createdAt = None, updatedAt = None\<rparr>, 101) \<and>
   fst (addTodo echo_server \<lparr>title = str '' Buy milk'', description = str ''2% milk, 1 gallon ''\<rparr>
          (world0 [task 1 ''bread'' COMPLETED])) = True \<and>
   map fst (calls (snd (addTodo echo_server
          \<lparr>title = str '' Buy milk'', description = str ''2% milk, 1 gallon ''\<rparr>
          (world0 [task 1 ''bread'' COMPLETED])))) =
     [CreateTodo \<lparr>title = str ''Buy milk'', description = str ''2% milk, 1 gallon''\<rparr>] \<and>
   todos (hook (snd (addTodo echo_server
          \<lparr>title = str '' Buy milk'', description = str ''2% milk, 1 gallon ''\<rparr>
          (world0 [task 1 ''bread'' COMPLETED])))) =
     [task 1 ''bread'' COMPLETED,
      \<lparr>title = str ''Buy milk'', description = str ''2% milk, 1 gallon'', status = PENDING,
       id_todo = 100, createdAt = None, updatedAt = None\<rparr>]"
proof -
  let ?d = "\<lparr>title = str '' Buy milk'', description = str ''2% milk, 1 gallon ''\<rparr>"
  let ?w = "world0 [task 1 ''bread'' COMPLETED]"
  let ?new = "\<lparr>title = str ''Buy milk'', description = str ''2% milk, 1 gallon'', status = PENDING,
               id_todo = 100, createdAt = None, updatedAt = None\<rparr>"
  have t: "trim (str '' Buy milk'') = str ''Buy milk''"
    and d: "trim (str ''2% milk, 1 gallon '') = str ''2% milk, 1 gallon''"
    by (simp_all add: trim_def isWhiteSpace_def str_def)
  have ne: "trim (title ?d) \<noteq> []" "trim (description ?d) \<noteq> []"
    by (simp_all add: t d) (simp_all add: str_def)
  have fields: "title ?d = str '' Buy milk''" "description ?d = str ''2% milk, 1 gallon ''"
      "outside ?w = 100" "calls ?w = []" "todos (hook ?w) = [task 1 ''bread'' COMPLETED]"
    by (simp_all add: world0_def)
  have created: "createTodo echo_server
                   \<lparr>title = str ''Buy milk'', description = str ''2% milk, 1 gallon''\<rparr> 100 = (Inr ?new, 101)"
    by (simp add: echo_server_def)
  note at_d = addTodo_create [OF ne, of echo_server ?w, unfolded Let_def fields t d append_Nil]
  have logged: "map fst (calls (snd (addTodo echo_server ?d ?w))) =
                  [CreateTodo \<lparr>title = str ''Buy milk'', description = str ''2% milk, 1 gallon''\<rparr>]"
    using at_d [THEN conjunct1] by simp
  have added: "fst (addTodo echo_server ?d ?w) = True \<and>
               todos (hook (snd (addTodo echo_server ?d ?w))) = [task 1 ''bread'' COMPLETED] @ [?new]"
    using at_d [THEN conjunct2, rule_format, OF created] by blast
  show ?thesis
    using t d created logged added by simp
qed

subsection \<open>Filtering\<close>

text \<open>
  Claim C6.  \<open>getFilteredTodos\<close> yields for \<open>active\<close> exactly the tasks that are PENDING or
  IN_PROGRESS, for \<open>completed\<close> those that are COMPLETED, for \<open>cancelled\<close> those that are
  CANCELLED, and for \<open>all\<close> the whole list.  The three proper filters are pairwise disjoint
  and cover the list, also counted with multiplicity.  The function reads the state and
  yields a list: it has no way to change the state, which is what its type says.
\<close>

theorem getFilteredTodos_partition:
  "getFilteredTodos s filter_active =
     filter (\<lambda>todo. status todo = PENDING \<or> status todo = IN_PROGRESS) (todos s) \<and>
   getFilteredTodos s filter_completed = filter (\<lambda>todo. status todo = COMPLETED) (todos s) \<and>
   getFilteredTodos s filter_cancelled = filter (\<lambda>todo. status todo = CANCELLED) (todos s) \<and>
   getFilteredTodos s filter_all = todos s \<and>
   set (getFilteredTodos s filter_active) \<inter> set (getFilteredTodos s filter_completed) = {} \<and>
   set (getFilteredTodos s filter_active) \<inter> set (getFilteredTodos s filter_cancelled) = {} \<and>
   set (getFilteredTodos s filter_completed) \<inter> set (getFilteredTodos s filter_cancelled) = {} \<and>
   set (getFilteredTodos s filter_active) \<union> set (getFilteredTodos s filter_completed) \<union>
     set (getFilteredTodos s filter_cancelled) = set (todos s) \<and>
   mset (getFilteredTodos s filter_active) + mset (getFilteredTodos s filter_completed) +
     mset (getFilteredTodos s filter_cancelled) = mset (todos s)"
proof -
  have cover: "set (filter (\<lambda>todo. status todo = PENDING \<or> status todo = IN_PROGRESS) ts) \<union>
               set (filter (\<lambda>todo. status todo = COMPLETED) ts) \<union>
               set (filter (\<lambda>todo. status todo = CANCELLED) ts) = set ts" for ts :: "Todo list"
  proof (induction ts)
    case Nil
    show ?case by simp
  next
    case (Cons t ts)
    then show ?case by (cases "status t") auto
  qed
  have count: "mset (filter (\<lambda>todo. status todo = PENDING \<or> status todo = IN_PROGRESS) ts) +
               mset (filter (\<lambda>todo. status todo = COMPLETED) ts) +
               mset (filter (\<lambda>todo. status todo = CANCELLED) ts) = mset ts" for ts :: "Todo list"
  proof (induction ts)
    case Nil
    show ?case by simp
  next
    case (Cons t ts)
    then show ?case by (cases "status t") auto
  qed
  show ?thesis
    using cover [of "todos s"] count [of "todos s"]
    by (auto simp add: getFilteredTodos_def)
qed

text \<open>
  The theorem at a list with one task of each status.
\<close>

theorem getFilteredTodos_partition_witness:
  "getFilteredTodos
     \<lparr>todos = [task 1 ''milk'' PENDING, task 2 ''bread'' COMPLETED, task 3 ''eggs'' IN_PROGRESS,
               task 4 ''jam'' CANCELLED],
      loading = False, error = [], initialLoading = False\<rparr> filter_active =
     [task 1 ''milk'' PENDING, task 3 ''eggs'' IN_PROGRESS] \<and>
   getFilteredTodos
     \<lparr>todos = [task 1 ''milk'' PENDING, task 2 ''bread'' COMPLETED, task 3 ''eggs'' IN_PROGRESS,
               task 4 ''jam'' CANCELLED],
      loading = False, error = [], initialLoading = False\<rparr> filter_completed =
     [task 2 ''bread'' COMPLETED] \<and>
   getFilteredTodos
     \<lparr>todos = [task 1 ''milk'' PENDING, task 2 ''bread'' COMPLETED, task 3 ''eggs'' IN_PROGRESS,
               task 4 ''jam'' CANCELLED],
      loading = False, error = [], initialLoading = False\<rparr> filter_cancelled =
     [task 4 ''jam'' CANCELLED]"
  using getFilteredTodos_partition
    [of "\<lparr>todos = [task 1 ''milk'' PENDING, task 2 ''bread'' COMPLETED, task 3 ''eggs'' IN_PROGRESS,
                   task 4 ''jam'' CANCELLED],
          loading = False, error = [], initialLoading = False\<rparr>"]
  by (simp add: task_def)

subsection \<open>Searching and loading\<close>

text \<open>
  Claim C7.  With a query that is empty after trimming, \<open>searchTodos\<close> does what
  \<open>fetchTodos\<close> does: one request for all tasks, whose result replaces the list.  With any
  other query it issues exactly one search request with the query, with \<open>loading\<close> set
  while it is pending; when the search resolves, its result (empty or not) replaces the
  list; and \<open>loading\<close> is cleared at the end whatever the outcome.
\<close>

theorem searchTodos_behaviour:
  "let w' = searchTodos api query w
   in (trim query = [] \<longrightarrow>
         w' = fetchTodos api w \<and>
         map fst (calls w') = map fst (calls w) @ [FetchAllTodos] \<and>
         (\<forall>data b. fetchAllTodos api (outside w) = (Inr data, b) \<longrightarrow> todos (hook w') = data)) \<and>
      (trim query \<noteq> [] \<longrightarrow>
         calls w' = calls w @ [(SearchTodos query, (hook w)\<lparr>loading := True\<rparr>)] \<and>
         (\<forall>data b. todosApi.searchTodos api query (outside w) = (Inr data, b) \<longrightarrow>
            todos (hook w') = data) \<and>
         loading (hook w') = False)"
  by (simp add: searchTodos_def fetchTodos_def setters Let_def split: prod.splits sum.splits)

text \<open>
  The theorem at the search for \<open>milk\<close>, which yields one task, followed by the search for
  a blank query, after which the list is the one the server returns for all tasks.
\<close>

theorem searchTodos_behaviour_witness:
  "trim (str ''milk'') \<noteq> [] \<and> trim (str '' '') = [] \<and>
   todos (hook (searchTodos echo_server (str ''milk'') (world0 []))) = [task 1 ''milk'' PENDING] \<and>
   loading (hook (searchTodos echo_server (str ''milk'') (world0 []))) = False \<and>
   map (loading \<circ> snd) (calls (searchTodos echo_server (str ''milk'') (world0 []))) = [True] \<and>
   todos (hook (searchTodos echo_server (str '' '')
                  (searchTodos echo_server (str ''milk'') (world0 [])))) =
     [task 1 ''milk'' PENDING, task 2 ''bread'' COMPLETED] \<and>
   map fst (calls (searchTodos echo_server (str '' '')
                     (searchTodos echo_server (str ''milk'') (world0 [])))) =
     [SearchTodos (str ''milk''), FetchAllTodos]"
proof -
  define w1 where "w1 = searchTodos echo_server (str ''milk'') (world0 [])"
  define w2 where "w2 = searchTodos echo_server (str '' '') w1"
  have q: "trim (str ''milk'') \<noteq> []" and e: "trim (str '' '') = []"
    by (simp_all add: trim_def isWhiteSpace_def str_def)
  have s: "todosApi.searchTodos echo_server (str ''milk'') (outside (world0 [])) =
             (Inr [task 1 ''milk'' PENDING], 100)"
    by (simp add: echo_server_def world0_def)
  have f: "fetchAllTodos echo_server (outside w1) =
             (Inr [task 1 ''milk'' PENDING, task 2 ''bread'' COMPLETED], outside w1)"
    by (simp add: echo_server_def)
  have first: "calls w1 = [(SearchTodos (str ''milk''), (hook (world0 []))\<lparr>loading := True\<rparr>)] \<and>
               todos (hook w1) = [task 1 ''milk'' PENDING] \<and> loading (hook w1) = False"
    using searchTodos_behaviour [of echo_server "str ''milk''" "world0 []"] q s
    unfolding w1_def by (simp add: Let_def world0_def)
  have second: "map fst (calls w2) = map fst (calls w1) @ [FetchAllTodos] \<and>
                todos (hook w2) = [task 1 ''milk'' PENDING, task 2 ''bread'' COMPLETED]"
    using searchTodos_behaviour [of echo_server "str '' ''" w1] e f
    unfolding w2_def Let_def by blast
  show ?thesis
    using q e first second unfolding w2_def w1_def by (simp add: world0_def)
qed

text \<open>
  Claim C8.  \<open>fetchTodos\<close> issues exactly one request for all tasks, with \<open>initialLoading\<close>
  set while it is pending.  When the request resolves, its result replaces the list and
  the error message stays; when it rejects, the list becomes empty and the error message
  is the message of the thrown error (the default text when the thrown value is not an
  error).  In both cases \<open>initialLoading\<close> is cleared at the end.
\<close>

theorem fetchTodos_load:
  "let r = fst (fetchAllTodos api (outside w)); w' = fetchTodos api w
   in calls w' = calls w @ [(FetchAllTodos, (hook w)\<lparr>initialLoading := True\<rparr>)] \<and>
      todos (hook w') = (case r of Inr data \<Rightarrow> data | Inl e \<Rightarrow> []) \<and>
      error (hook w') =
        (case r of
           Inr data \<Rightarrow> error (hook w)
         | Inl (Error message) \<Rightarrow> message
         | Inl NonError \<Rightarrow> str ''Error al cargar las tareas'') \<and>
      initialLoading (hook w') = False"
  by (simp add: fetchTodos_def setters Let_def split: prod.splits sum.splits exn.splits)

text \<open>
  The theorem on the server that answers with two tasks and on the server that rejects.
\<close>

theorem fetchTodos_load_witness:
  "fetchAllTodos echo_server 100 = (Inr [task 1 ''milk'' PENDING, task 2 ''bread'' COMPLETED], 100) \<and>
   todos (hook (fetchTodos echo_server (world0 []))) =
     [task 1 ''milk'' PENDING, task 2 ''bread'' COMPLETED] \<and>
   initialLoading (hook (fetchTodos echo_server (world0 []))) = False \<and>
   map (initialLoading \<circ> snd) (calls (fetchTodos echo_server (world0 []))) = [True] \<and>
   fetchAllTodos failing_server 100 = (Inl (Error (str ''Error 500: Internal Server Error'')), 100) \<and>
   todos (hook (fetchTodos failing_server (world0 [task 1 ''milk'' PENDING]))) = [] \<and>
   error (hook (fetchTodos failing_server (world0 [task 1 ''milk'' PENDING]))) =
     str ''Error 500: Internal Server Error'' \<and>
   initialLoading (hook (fetchTodos failing_server (world0 [task 1 ''milk'' PENDING]))) = False"
  using fetchTodos_load [of echo_server "world0 []"]
    fetchTodos_load [of failing_server "world0 [task 1 ''milk'' PENDING]"]
  by (simp add: Let_def echo_server_def failing_server_def world0_def)

text \<open>
  Claim C10.  When the query is not empty after trimming and the search request rejects,
  \<open>searchTodos\<close> leaves the list as it was, sets the error message, clears \<open>loading\<close> and
  leaves \<open>initialLoading\<close> alone; whereas \<open>fetchTodos\<close> in the same world empties the list
  when its request rejects.
\<close>

theorem searchTodos_failure:
  assumes "trim query \<noteq> []"
    and "todosApi.searchTodos api query (outside w) = (Inl e, b)"
  shows "todos (hook (searchTodos api query w)) = todos (hook w) \<and>
         error (hook (searchTodos api query w)) =
           (case e of Error message \<Rightarrow> message | NonError \<Rightarrow> str ''Error al buscar tareas'') \<and>
         loading (hook (searchTodos api query w)) = False \<and>
         initialLoading (hook (searchTodos api query w)) = initialLoading (hook w) \<and>
         (\<forall>e' b'. fetchAllTodos api (outside w) = (Inl e', b') \<longrightarrow>
            todos (hook (fetchTodos api w)) = [])"
  using assms
  by (simp add: searchTodos_def fetchTodos_def setters Let_def split: prod.splits sum.splits exn.splits)

text \<open>
  The theorem at the search for \<open>milk\<close> on the server that rejects.
\<close>

theorem searchTodos_failure_witness:
  "trim (str ''milk'') \<noteq> [] \<and>
   todosApi.searchTodos failing_server (str ''milk'') 100 =
     (Inl (Error (str ''Error 500: Internal Server Error'')), 100) \<and>
   todos (hook (searchTodos failing_server (str ''milk'') (world0 [task 1 ''bread'' COMPLETED]))) =
     [task 1 ''bread'' COMPLETED] \<and>
   error (hook (searchTodos failing_server (str ''milk'') (world0 [task 1 ''bread'' COMPLETED]))) =
     str ''Error 500: Internal Server Error'' \<and>
   todos (hook (fetchTodos failing_server (world0 [task 1 ''bread'' COMPLETED]))) = []"
proof -
  have q: "trim (str ''milk'') \<noteq> []"
    by (simp add: trim_def isWhiteSpace_def str_def)
  have r: "todosApi.searchTodos failing_server (str ''milk'') (outside (world0 [task 1 ''bread'' COMPLETED])) =
             (Inl (Error (str ''Error 500: Internal Server Error'')), 100)"
    by (simp add: failing_server_def world0_def)
  have f: "fetchAllTodos failing_server (outside (world0 [task 1 ''bread'' COMPLETED])) =
             (Inl (Error (str ''Error 500: Internal Server Error'')), 100)"
    by (simp add: failing_server_def world0_def)
  show ?thesis
    using searchTodos_failure [OF q r] q r f by (simp add: world0_def)
qed

subsection \<open>The authentication gate\<close>

text \<open>
  Claim C9.  \<open>AuthProvider\<close> renders the children exactly when the state is both
  initialized and authenticated, and then inside the context provider; in every other
  state it renders a placeholder, which contains no children.
\<close>

theorem AuthProvider_gate:
  "set_element (AuthProvider s children) =
     (if initialized s \<and> authenticated s then {children} else {}) \<and>
   (AuthProvider s children = AuthContext_Provider s children) = (initialized s \<and> authenticated s) \<and>
   (\<exists>text. AuthProvider s children = Placeholder text) = (\<not> (initialized s \<and> authenticated s))"
  by (auto simp add: AuthProvider_def)

text \<open>
  The theorem at the four combinations of the two flags.
\<close>

theorem AuthProvider_gate_witness:
  "set_element (AuthProvider \<lparr>initialized = False, authenticated = False, token = None\<rparr> (0::nat)) = {} \<and>
   set_element (AuthProvider \<lparr>initialized = True, authenticated = False, token = None\<rparr> (0::nat)) = {} \<and>
   set_element (AuthProvider \<lparr>initialized = False, authenticated = True, token = None\<rparr> (0::nat)) = {} \<and>
   AuthProvider \<lparr>initialized = True, authenticated = True, token = Some (str ''jwt'')\<rparr> (0::nat) =
     AuthContext_Provider \<lparr>initialized = True, authenticated = True, token = Some (str ''jwt'')\<rparr> 0"
  using AuthProvider_gate [of "\<lparr>initialized = False, authenticated = False, token = None\<rparr>" "0::nat"]
    AuthProvider_gate [of "\<lparr>initialized = True, authenticated = False, token = None\<rparr>" "0::nat"]
    AuthProvider_gate [of "\<lparr>initialized = False, authenticated = True, token = None\<rparr>" "0::nat"]
    AuthProvider_gate [of "\<lparr>initialized = True, authenticated = True, token = Some (str ''jwt'')\<rparr>" "0::nat"]
  by simp

end
